theory Spec2Isabelle
  imports Main "HOL-Library.Sublist"
begin

section \<open>The dependency installer script \<open>install-dependencies.py\<close>\<close>

text \<open>
  The script runs external commands through \<^verbatim>\<open>subprocess.run\<close>, prints status lines and
  sleeps. Every function of the model returns its result together with the list of effects
  it performed, in order; an exception of the Python code is the \<open>Inl\<close> branch of the
  result.
\<close>

subsection \<open>The outside world and the effects\<close>

text \<open>
  What happens when \<^verbatim>\<open>subprocess.run(command, shell=True, ...)\<close> is called: either the
  shell is started and the child exits with a return code, having written some text to
  its standard output and error streams, or the child process cannot be started at all
  and \<^verbatim>\<open>Popen\<close> raises \<^verbatim>\<open>OSError\<close>. A command the shell cannot find is of the
  first kind: the shell itself starts and exits with a non-zero code.
\<close>

datatype proc_outcome = Exited int string | Launch_failed

type_synonym world = "string \<Rightarrow> proc_outcome"

datatype event =
    Spawn string
  | Child_output string
  | Print string
  | Sleep nat

datatype exn = CalledProcessError int | OSError | SystemExit int

type_synonym 'a io = "(exn + 'a) \<times> event list"

definition seq :: "'a io \<Rightarrow> ('a \<Rightarrow> 'b io) \<Rightarrow> 'b io" where
  "seq m f =
     (case m of
        (Inl e, evs) \<Rightarrow> (Inl e, evs)
      | (Inr a, evs) \<Rightarrow> (case f a of (r, evs') \<Rightarrow> (r, evs @ evs')))"

definition print :: "string \<Rightarrow> unit io" where
  "print s = (Inr (), [Print s])"

definition sys_exit :: "int \<Rightarrow> 'a io" where
  "sys_exit n = (Inl (SystemExit n), [])"

text \<open>
  \<^verbatim>\<open>subprocess.run(command, shell=True, check=True)\<close>. With \<open>capture\<close> (both streams
  set to \<^verbatim>\<open>subprocess.PIPE\<close>) the text of the child goes into the returned object;
  without it the child inherits the terminal and its text appears there. \<^verbatim>\<open>check=True\<close>
  raises \<^verbatim>\<open>CalledProcessError\<close> on a non-zero return code.
\<close>

definition subprocess_run :: "world \<Rightarrow> string \<Rightarrow> bool \<Rightarrow> unit io" where
  "subprocess_run w command capture =
     (case w command of
        Launch_failed \<Rightarrow> (Inl OSError, [Spawn command])
      | Exited rc out \<Rightarrow>
          (if rc \<noteq> 0 then Inl (CalledProcessError rc) else Inr (),
           Spawn command # (if capture then [] else [Child_output out])))"

text \<open>The two marks of the status lines, U+2713 and U+2717, as their UTF-8 bytes.\<close>

definition check_mark :: string where
  "check_mark = [CHR 0xE2, CHR 0x9C, CHR 0x93]"

definition cross_mark :: string where
  "cross_mark = [CHR 0xE2, CHR 0x9C, CHR 0x97]"

subsection \<open>The functions of the script\<close>

text \<open>
  \<^verbatim>\<open>check_dependency\<close>, lines 7 to 15. The \<^verbatim>\<open>except\<close> clause names
  \<^verbatim>\<open>subprocess.CalledProcessError\<close> only: any other exception leaves the function.
\<close>

definition check_dependency :: "world \<Rightarrow> string \<Rightarrow> string \<Rightarrow> bool io" where
  "check_dependency w command name =
     (case subprocess_run w command True of
        (Inr u, evs) \<Rightarrow> (Inr True, evs @ [Print (check_mark @ '' '' @ name @ '' is installed'')])
      | (Inl (CalledProcessError rc), evs) \<Rightarrow>
          (Inr False, evs @ [Print (cross_mark @ '' '' @ name @ '' is not installed'')])
      | (Inl e, evs) \<Rightarrow> (Inl e, evs))"

text \<open>\<^verbatim>\<open>run_command\<close>, lines 17 to 27.\<close>

definition run_command :: "world \<Rightarrow> string \<Rightarrow> string \<Rightarrow> bool io" where
  "run_command w command success_message =
     (case subprocess_run w command False of
        (Inr u, evs) \<Rightarrow>
          (Inr True, evs @ [Print (check_mark @ '' '' @ success_message), Sleep 2])
      | (Inl (CalledProcessError rc), evs) \<Rightarrow>
          (Inr False,
           evs @ [Print (cross_mark @ '' Failed to install: '' @ success_message), Sleep 2])
      | (Inl e, evs) \<Rightarrow> (Inl e, evs))"

text \<open>The f-string of line 32.\<close>

definition install_command :: "bool \<Rightarrow> string \<Rightarrow> string" where
  "install_command is_dev package =
     ''yarn add '' @ (if is_dev then ''--dev'' else '''') @ '' '' @ package"

text \<open>\<^verbatim>\<open>install_packages\<close>, lines 29 to 33: the result of \<^verbatim>\<open>run_command\<close> is dropped.\<close>

fun install_packages :: "world \<Rightarrow> (string \<times> string) list \<Rightarrow> bool \<Rightarrow> unit io" where
  "install_packages w [] is_dev = (Inr (), [])"
| "install_packages w ((package, message) # packages) is_dev =
     seq (run_command w (install_command is_dev package) message)
       (\<lambda>r. install_packages w packages is_dev)"

definition core_packages :: "(string \<times> string) list" where
  "core_packages =
     [(''express@^4.18.2'', ''Express installed''),
      (''cors@^2.8.5'', ''CORS installed''),
      (''helmet@^7.1.0'', ''Helmet installed''),
      (''express-rate-limit@^7.1.5'', ''Express Rate Limit installed''),
      (''compression@^1.7.4'', ''Compression installed''),
      (''dotenv@^16.4.5'', ''Dotenv installed'')]"

definition db_packages :: "(string \<times> string) list" where
  "db_packages =
     [(''pg@^8.11.3'', ''PostgreSQL client installed''),
      (''pg-hstore@^2.3.4'', ''PostgreSQL HStore installed''),
      (''sequelize@^6.37.1'', ''Sequelize installed''),
      (''sequelize-cli@^6.6.2'', ''Sequelize CLI installed'')]"

definition security_packages :: "(string \<times> string) list" where
  "security_packages =
     [(''bcrypt@^5.1.1'', ''Bcrypt installed''),
      (''jsonwebtoken@^9.0.2'', ''JSON Web Token installed''),
      (''cookie-parser@^1.4.6'', ''Cookie Parser installed'')]"

definition utility_packages :: "(string \<times> string) list" where
  "utility_packages =
     [(''multer@^1.4.5-lts.1'', ''Multer installed''),
      (''sharp@^0.33.2'', ''Sharp installed''),
      (''redis@^4.6.13'', ''Redis installed''),
      (''nodemailer@^6.9.9'', ''Nodemailer installed''),
      (''joi@^17.12.2'', ''Joi installed''),
      (''winston@^3.11.0'', ''Winston installed''),
      (''swagger-ui-express@^5.0.0'', ''Swagger UI Express installed''),
      (''aws-sdk@^2.1564.0'', ''AWS SDK installed''),
      (''lodash@^4.17.21'', ''Lodash installed'')]"

definition dev_packages :: "(string \<times> string) list" where
  "dev_packages =
     [(''nodemon@^3.0.3'', ''Nodemon installed''),
      (''eslint@^8.57.0'', ''ESLint installed''),
      (''jest@^29.7.0'', ''Jest installed''),
      (''supertest@^6.3.4'', ''Supertest installed'')]"

text \<open>
  The body of \<^verbatim>\<open>main\<close> from line 48 on, reached when both checks passed. A string that
  starts with \<^verbatim>\<open>\n\<close> in the source starts with the character 10 here.
\<close>

definition installation :: "world \<Rightarrow> unit io" where
  "installation w =
     seq (print (CHR 0x0A # ''Starting installation...'')) (\<lambda>_.
     seq (print (CHR 0x0A # ''Installing core packages...'')) (\<lambda>_.
     seq (install_packages w core_packages False) (\<lambda>_.
     seq (print (CHR 0x0A # ''Installing database packages...'')) (\<lambda>_.
     seq (install_packages w db_packages False) (\<lambda>_.
     seq (print (CHR 0x0A # ''Installing security packages...'')) (\<lambda>_.
     seq (install_packages w security_packages False) (\<lambda>_.
     seq (print (CHR 0x0A # ''Installing utility packages...'')) (\<lambda>_.
     seq (install_packages w utility_packages False) (\<lambda>_.
     seq (print (CHR 0x0A # ''Installing development packages...'')) (\<lambda>_.
     seq (install_packages w dev_packages True) (\<lambda>_.
     print (CHR 0x0A # ''Installation completed!''))))))))))))"

text \<open>\<^verbatim>\<open>main\<close>, lines 35 to 106.\<close>

definition main :: "world \<Rightarrow> unit io" where
  "main w =
     seq (print ''Checking dependencies...'') (\<lambda>_.
     seq (check_dependency w ''node --version'' ''Node.js'') (\<lambda>node_ok.
     if \<not> node_ok then
       seq (print (CHR 0x0A #
              ''Please install Node.js first. You can download it from https://nodejs.org/''))
         (\<lambda>_. sys_exit 1)
     else
     seq (check_dependency w ''yarn --version'' ''Yarn'') (\<lambda>yarn_ok.
     if \<not> yarn_ok then
       seq (print (CHR 0x0A #
              ''Please install Yarn first. You can install it using npm: npm install -g yarn''))
         (\<lambda>_. sys_exit 1)
     else installation w)))"

text \<open>
  The exit status of the process that runs \<^verbatim>\<open>main()\<close> at line 109: 0 when \<^verbatim>\<open>main\<close>
  returns, the argument of \<^verbatim>\<open>sys.exit\<close> when it was called. Another exception that
  leaves \<^verbatim>\<open>main\<close> ends the interpreter with a traceback; the model keeps that apart
  as \<open>None\<close>.
\<close>

fun exit_status :: "unit io \<Rightarrow> int option" where
  "exit_status (Inr u, evs) = Some 0"
| "exit_status (Inl (SystemExit n), evs) = Some n"
| "exit_status (Inl e, evs) = None"

subsection \<open>Reading a run\<close>

fun spawned :: "event list \<Rightarrow> string list" where
  "spawned [] = []"
| "spawned (Spawn c # evs) = c # spawned evs"
| "spawned (e # evs) = spawned evs"

fun printed :: "event list \<Rightarrow> string list" where
  "printed [] = []"
| "printed (Print s # evs) = s # printed evs"
| "printed (e # evs) = printed evs"

text \<open>
  The status line \<^verbatim>\<open>run_command\<close> prints for one entry of a package list, read off the
  world: the success line when the entry's command exits with 0, the failure line when it
  exits with another code.
\<close>

definition install_line :: "world \<Rightarrow> bool \<Rightarrow> string \<times> string \<Rightarrow> string" where
  "install_line w is_dev e =
     (case w (install_command is_dev (fst e)) of
        Exited rc out \<Rightarrow>
          if rc = 0 then check_mark @ '' '' @ snd e
          else cross_mark @ '' Failed to install: '' @ snd e
      | Launch_failed \<Rightarrow> [])"

text \<open>
  The five calls of \<^verbatim>\<open>install_packages\<close> in \<^verbatim>\<open>main\<close> (lines 60, 70, 79, 94 and
  104): the group named by the comment above each list, the list, and the \<^verbatim>\<open>is_dev\<close>
  argument of the call.
\<close>

datatype package_group = Core | Database | Security | Utility | Development

definition install_calls :: "(package_group \<times> (string \<times> string) list \<times> bool) list" where
  "install_calls =
     [(Core, core_packages, False),
      (Database, db_packages, False),
      (Security, security_packages, False),
      (Utility, utility_packages, False),
      (Development, dev_packages, True)]"

subsection \<open>Sample worlds\<close>

text \<open>
  Every command exits with 0; only the \<^verbatim>\<open>bcrypt\<close> install fails; the shell does not
  find \<^verbatim>\<open>node\<close>, or \<^verbatim>\<open>yarn\<close>, and exits with 127; no child process can be
  started at all.
\<close>

definition all_succeed :: world where
  "all_succeed c = Exited 0 []"

definition bcrypt_fails :: world where
  "bcrypt_fails c = (if c = ''yarn add  bcrypt@^5.1.1'' then Exited 1 [] else Exited 0 [])"

definition node_missing :: world where
  "node_missing c =
     (if c = ''node --version'' then Exited 127 ''sh: 1: node: not found'' else Exited 0 [])"

definition yarn_missing :: world where
  "yarn_missing c =
     (if c = ''yarn --version'' then Exited 127 ''sh: 1: yarn: not found'' else Exited 0 [])"

definition shell_unavailable :: world where
  "shell_unavailable c = Launch_failed"

section \<open>Basic facts\<close>

lemma fst_seq_Inr: "fst m = Inr a \<Longrightarrow> fst (seq m f) = fst (f a)"
  by (cases m) (auto simp: seq_def split: prod.splits)

lemma snd_seq_Inr: "fst m = Inr a \<Longrightarrow> snd (seq m f) = snd m @ snd (f a)"
  by (cases m) (auto simp: seq_def split: prod.splits)

lemma spawned_append: "spawned (xs @ ys) = spawned xs @ spawned ys"
  by (induction xs rule: spawned.induct) auto

lemma printed_append: "printed (xs @ ys) = printed xs @ printed ys"
  by (induction xs rule: printed.induct) auto


lemma exit_status_Inr: "fst m = Inr u \<Longrightarrow> exit_status m = Some 0"
  by (cases m) simp

subsection \<open>One command\<close>

lemma run_command_Exited:
  "w c = Exited rc out \<Longrightarrow>
   run_command w c m =
     (Inr (rc = 0),
      [Spawn c, Child_output out,
       Print (if rc = 0 then check_mark @ '' '' @ m
              else cross_mark @ '' Failed to install: '' @ m),
       Sleep 2])"
  by (simp add: run_command_def subprocess_run_def)

lemma check_dependency_Exited:
  "w c = Exited rc out \<Longrightarrow>
   check_dependency w c n =
     (Inr (rc = 0),
      [Spawn c,
       Print (if rc = 0 then check_mark @ '' '' @ n @ '' is installed''
              else cross_mark @ '' '' @ n @ '' is not installed'')])"
  by (simp add: check_dependency_def subprocess_run_def)

lemma check_dependency_Launch_failed:
  "w c = Launch_failed \<Longrightarrow> check_dependency w c n = (Inl OSError, [Spawn c])"
  by (simp add: check_dependency_def subprocess_run_def)

subsection \<open>A package list\<close>

text \<open>
  When every command that is started comes back with a return code, the loop of
  \<^verbatim>\<open>install_packages\<close> reaches the end of its list: it runs one command per entry, in
  the order of the list, and prints one status line per entry.
\<close>

lemma install_packages_exits:
  assumes "\<forall>c. w c \<noteq> Launch_failed"
  shows "fst (install_packages w pkgs d) = Inr ()
    \<and> spawned (snd (install_packages w pkgs d)) = map (install_command d \<circ> fst) pkgs
    \<and> printed (snd (install_packages w pkgs d)) = map (install_line w d) pkgs"
proof (induction pkgs)
  case Nil
  show ?case by simp
next
  case (Cons e pkgs)
  obtain p m where e: "e = (p, m)" by (cases e)
  from assms obtain rc out where x: "w (install_command d p) = Exited rc out"
    by (cases "w (install_command d p)") auto
  note rc = run_command_Exited [of w "install_command d p" rc out m, OF x]
  show ?case
    using Cons.IH by (simp add: e rc fst_seq_Inr snd_seq_Inr install_line_def x)
qed

lemma map_install_line_success:
  assumes "\<forall>c. \<exists>out. w c = Exited 0 out"
  shows "map (install_line w d) pkgs = map (\<lambda>e. check_mark @ '' '' @ snd e) pkgs"
proof (rule map_cong [OF refl])
  fix e :: "string \<times> string"
  from assms obtain out where "w (install_command d (fst e)) = Exited 0 out" by blast
  then show "install_line w d e = check_mark @ '' '' @ snd e"
    by (simp add: install_line_def)
qed

subsection \<open>The whole run\<close>

lemma installation_exits:
  assumes "\<forall>c. w c \<noteq> Launch_failed"
  shows "fst (installation w) = Inr ()"
    and "spawned (snd (installation w)) =
           map (install_command False \<circ> fst) core_packages @
           map (install_command False \<circ> fst) db_packages @
           map (install_command False \<circ> fst) security_packages @
           map (install_command False \<circ> fst) utility_packages @
           map (install_command True \<circ> fst) dev_packages"
    and "printed (snd (installation w)) =
           (CHR 0x0A # ''Starting installation...'') #
           (CHR 0x0A # ''Installing core packages...'') #
           map (install_line w False) core_packages @
           (CHR 0x0A # ''Installing database packages...'') #
           map (install_line w False) db_packages @
           (CHR 0x0A # ''Installing security packages...'') #
           map (install_line w False) security_packages @
           (CHR 0x0A # ''Installing utility packages...'') #
           map (install_line w False) utility_packages @
           (CHR 0x0A # ''Installing development packages...'') #
           map (install_line w True) dev_packages @
           [CHR 0x0A # ''Installation completed!'']"
    and "last (snd (installation w)) = Print (CHR 0x0A # ''Installation completed!'')"
  unfolding installation_def
  by (simp_all add: fst_seq_Inr snd_seq_Inr print_def install_packages_exits [OF assms]
        spawned_append printed_append)

lemma main_checks_pass:
  assumes "w ''node --version'' = Exited 0 out1" and "w ''yarn --version'' = Exited 0 out2"
  shows "fst (main w) = fst (installation w)"
    and "snd (main w) =
           [Print ''Checking dependencies...'',
            Spawn ''node --version'', Print (check_mark @ '' Node.js is installed''),
            Spawn ''yarn --version'', Print (check_mark @ '' Yarn is installed'')] @
           snd (installation w)"
  unfolding main_def
  by (simp_all add: fst_seq_Inr snd_seq_Inr print_def
        check_dependency_Exited [of w _ 0 out1] check_dependency_Exited [of w _ 0 out2] assms)

lemma main_node_fails:
  assumes "w ''node --version'' = Exited rc out" and "rc \<noteq> 0"
  shows "main w = (Inl (SystemExit 1),
           [Print ''Checking dependencies...'',
            Spawn ''node --version'', Print (cross_mark @ '' Node.js is not installed''),
            Print (CHR 0x0A #
              ''Please install Node.js first. You can download it from https://nodejs.org/'')])"
  unfolding main_def
  by (simp add: seq_def print_def sys_exit_def
        check_dependency_Exited [of w _ rc out] assms)

lemma main_yarn_fails:
  assumes "w ''node --version'' = Exited 0 out1"
    and "w ''yarn --version'' = Exited rc out2" and "rc \<noteq> 0"
  shows "main w = (Inl (SystemExit 1),
           [Print ''Checking dependencies...'',
            Spawn ''node --version'', Print (check_mark @ '' Node.js is installed''),
            Spawn ''yarn --version'', Print (cross_mark @ '' Yarn is not installed''),
            Print (CHR 0x0A #
              ''Please install Yarn first. You can install it using npm: npm install -g yarn'')])"
  unfolding main_def
  by (simp add: seq_def print_def sys_exit_def
        check_dependency_Exited [of w _ 0 out1] check_dependency_Exited [of w _ rc out2] assms)

lemma main_all_exit:
  assumes "w ''node --version'' = Exited 0 out1" and "w ''yarn --version'' = Exited 0 out2"
    and "\<forall>c. w c \<noteq> Launch_failed"
  shows "fst (main w) = Inr ()"
    and "spawned (snd (main w)) =
           ''node --version'' # ''yarn --version'' #
           map (install_command False \<circ> fst) core_packages @
           map (install_command False \<circ> fst) db_packages @
           map (install_command False \<circ> fst) security_packages @
           map (install_command False \<circ> fst) utility_packages @
           map (install_command True \<circ> fst) dev_packages"
    and "printed (snd (main w)) =
           ''Checking dependencies...'' #
           (check_mark @ '' Node.js is installed'') #
           (check_mark @ '' Yarn is installed'') #
           (CHR 0x0A # ''Starting installation...'') #
           (CHR 0x0A # ''Installing core packages...'') #
           map (install_line w False) core_packages @
           (CHR 0x0A # ''Installing database packages...'') #
           map (install_line w False) db_packages @
           (CHR 0x0A # ''Installing security packages...'') #
           map (install_line w False) security_packages @
           (CHR 0x0A # ''Installing utility packages...'') #
           map (install_line w False) utility_packages @
           (CHR 0x0A # ''Installing development packages...'') #
           map (install_line w True) dev_packages @
           [CHR 0x0A # ''Installation completed!'']"
  by (simp_all add: main_checks_pass [of w out1 out2, OF assms(1,2)]
        installation_exits(1,2,3) [OF assms(3)] spawned_append)



text \<open>The run in which every command exits with 0.\<close>

lemma main_all_succeed:
  assumes "\<forall>c. \<exists>out. w c = Exited 0 out"
  shows "fst (main w) = Inr ()"
    and "printed (snd (main w)) =
           ''Checking dependencies...'' #
           (check_mark @ '' Node.js is installed'') #
           (check_mark @ '' Yarn is installed'') #
           (CHR 0x0A # ''Starting installation...'') #
           (CHR 0x0A # ''Installing core packages...'') #
           map (\<lambda>e. check_mark @ '' '' @ snd e) core_packages @
           (CHR 0x0A # ''Installing database packages...'') #
           map (\<lambda>e. check_mark @ '' '' @ snd e) db_packages @
           (CHR 0x0A # ''Installing security packages...'') #
           map (\<lambda>e. check_mark @ '' '' @ snd e) security_packages @
           (CHR 0x0A # ''Installing utility packages...'') #
           map (\<lambda>e. check_mark @ '' '' @ snd e) utility_packages @
           (CHR 0x0A # ''Installing development packages...'') #
           map (\<lambda>e. check_mark @ '' '' @ snd e) dev_packages @
           [CHR 0x0A # ''Installation completed!'']"
proof -
  from assms obtain out1 where h1: "w ''node --version'' = Exited 0 out1" by blast
  from assms obtain out2 where h2: "w ''yarn --version'' = Exited 0 out2" by blast
  have h3: "\<forall>c. w c \<noteq> Launch_failed"
  proof
    fix c
    from assms obtain out where "w c = Exited 0 out" by blast
    then show "w c \<noteq> Launch_failed" by simp
  qed
  note m = main_all_exit [of w out1 out2, OF h1 h2 h3]
  show "fst (main w) = Inr ()" by (rule m(1))
  show "printed (snd (main w)) =
           ''Checking dependencies...'' #
           (check_mark @ '' Node.js is installed'') #
           (check_mark @ '' Yarn is installed'') #
           (CHR 0x0A # ''Starting installation...'') #
           (CHR 0x0A # ''Installing core packages...'') #
           map (\<lambda>e. check_mark @ '' '' @ snd e) core_packages @
           (CHR 0x0A # ''Installing database packages...'') #
           map (\<lambda>e. check_mark @ '' '' @ snd e) db_packages @
           (CHR 0x0A # ''Installing security packages...'') #
           map (\<lambda>e. check_mark @ '' '' @ snd e) security_packages @
           (CHR 0x0A # ''Installing utility packages...'') #
           map (\<lambda>e. check_mark @ '' '' @ snd e) utility_packages @
           (CHR 0x0A # ''Installing development packages...'') #
           map (\<lambda>e. check_mark @ '' '' @ snd e) dev_packages @
           [CHR 0x0A # ''Installation completed!'']"
    by (simp add: m(3) map_install_line_success [OF assms])
qed

lemma check_lines_all_succeed:
  assumes "\<forall>c. \<exists>out. w c = Exited 0 out"
  shows "filter (prefix check_mark) (printed (snd (main w))) =
        [check_mark @ '' Node.js is installed'', check_mark @ '' Yarn is installed''] @
        map (\<lambda>e. check_mark @ '' '' @ snd e)
          (core_packages @ db_packages @ security_packages @ utility_packages @ dev_packages)"
  by (simp add: main_all_succeed(2) [OF assms] check_mark_def filter_map comp_def)

lemma cross_lines_all_succeed:
  assumes "\<forall>c. \<exists>out. w c = Exited 0 out"
  shows "filter (prefix cross_mark) (printed (snd (main w))) = []"
  by (simp add: main_all_succeed(2) [OF assms] check_mark_def cross_mark_def filter_map
        comp_def)

lemma package_count:
  "length (core_packages @ db_packages @ security_packages @ utility_packages
          @ dev_packages) = 26"
  by (simp add: core_packages_def db_packages_def security_packages_def
        utility_packages_def dev_packages_def)

text \<open>The flag in the commands of the five calls.\<close>

lemma dev_flag_in_install_calls:
  "\<forall>(g, packages, is_dev) \<in> set install_calls. \<forall>(package, message) \<in> set packages.
     sublist ''--dev'' (install_command is_dev package) \<longleftrightarrow> g = Development"
  by (simp add: install_calls_def install_command_def core_packages_def db_packages_def
        security_packages_def utility_packages_def dev_packages_def sublist_code)

section \<open>The claims\<close>

text \<open>
  In the statements below a run in which a probe or an install command succeeds is one
  where the world answers \<open>Exited 0 out\<close> for it, and one in which it fails is one
  where the world answers \<open>Exited rc out\<close> with \<open>rc \<noteq> 0\<close>. The hypothesis
  \<open>\<forall>c. w c \<noteq> Launch_failed\<close> says that every command that is started succeeds or fails
  in this sense.
\<close>



text \<open>
  C2. When the Node.js probe fails, the program exits with status 1, and the probe is the
  only command it has run: neither the Yarn probe nor any install command is attempted.
\<close>

theorem main_node_probe_fails:
  assumes "w ''node --version'' = Exited rc out" and "rc \<noteq> 0"
  shows "exit_status (main w) = Some 1 \<and> spawned (snd (main w)) = [''node --version'']"
  by (simp add: main_node_fails [of w rc out, OF assms])

theorem main_node_probe_fails_witness:
  "node_missing ''node --version'' = Exited 127 ''sh: 1: node: not found''
   \<and> (127::int) \<noteq> 0
   \<and> exit_status (main node_missing) = Some 1
   \<and> spawned (snd (main node_missing)) = [''node --version'']"
proof -
  have h1: "node_missing ''node --version'' = Exited 127 ''sh: 1: node: not found''"
    by (simp add: node_missing_def)
  have h2: "(127::int) \<noteq> 0" by simp
  show ?thesis
    using main_node_probe_fails [of node_missing 127 "''sh: 1: node: not found''", OF h1 h2] h1
    by simp
qed

text \<open>
  C3. When the Node.js probe succeeds and the Yarn probe fails, the program exits with
  status 1, and the two probes are the only commands it has run: no install command of
  any group is attempted.
\<close>

theorem main_yarn_probe_fails:
  assumes "w ''node --version'' = Exited 0 out1"
    and "w ''yarn --version'' = Exited rc out2" and "rc \<noteq> 0"
  shows "exit_status (main w) = Some 1
         \<and> spawned (snd (main w)) = [''node --version'', ''yarn --version'']"
  by (simp add: main_yarn_fails [of w out1 rc out2, OF assms])

theorem main_yarn_probe_fails_witness:
  "yarn_missing ''node --version'' = Exited 0 []
   \<and> yarn_missing ''yarn --version'' = Exited 127 ''sh: 1: yarn: not found''
   \<and> (127::int) \<noteq> 0
   \<and> exit_status (main yarn_missing) = Some 1
   \<and> spawned (snd (main yarn_missing)) = [''node --version'', ''yarn --version'']"
proof -
  have h1: "yarn_missing ''node --version'' = Exited 0 []"
    by (simp add: yarn_missing_def)
  have h2: "yarn_missing ''yarn --version'' = Exited 127 ''sh: 1: yarn: not found''"
    by (simp add: yarn_missing_def)
  have h3: "(127::int) \<noteq> 0" by simp
  show ?thesis
    using main_yarn_probe_fails
            [of yarn_missing "[]" 127 "''sh: 1: yarn: not found''", OF h1 h2 h3] h1 h2
    by simp
qed

text \<open>
  C4, as the claim states it, fails: when both probes and every install command exit
  with 0, the number of lines that start with the check mark is not 23 + 2. The five
  lists hold 6 + 4 + 3 + 9 + 4 = 26 entries.
\<close>

theorem all_succeed_check_lines_not_25:
  "length (filter (prefix check_mark) (printed (snd (main all_succeed)))) \<noteq> 23 + 2"
proof -
  have h: "\<forall>c. \<exists>out. all_succeed c = Exited 0 out" by (simp add: all_succeed_def)
  have "length (filter (prefix check_mark) (printed (snd (main all_succeed)))) =
      2 + length (core_packages @ db_packages @ security_packages @ utility_packages
          @ dev_packages)"
    unfolding check_lines_all_succeed [OF h] by simp
  then have "length (filter (prefix check_mark) (printed (snd (main all_succeed)))) = 28"
    unfolding package_count by simp
  then show ?thesis by simp
qed

text \<open>
  C4, amended. When both probes and every install command exit with 0, the program
  exits with status 0; the lines it prints with the check mark are the 2 lines of the
  probes followed by one success line per entry of the five lists, in order, which
  makes 26 install lines; it prints no line with the cross mark; and the last line it
  prints is the completion banner.
\<close>

theorem main_all_succeed_output:
  assumes "\<forall>c. \<exists>out. w c = Exited 0 out"
  shows "exit_status (main w) = Some 0
    \<and> filter (prefix check_mark) (printed (snd (main w))) =
        [check_mark @ '' Node.js is installed'', check_mark @ '' Yarn is installed''] @
        map (\<lambda>e. check_mark @ '' '' @ snd e)
          (core_packages @ db_packages @ security_packages @ utility_packages @ dev_packages)
    \<and> length (core_packages @ db_packages @ security_packages @ utility_packages
          @ dev_packages) = 26
    \<and> filter (prefix cross_mark) (printed (snd (main w))) = []
    \<and> last (printed (snd (main w))) = CHR 0x0A # ''Installation completed!''"
proof -
  have a: "exit_status (main w) = Some 0"
    by (simp add: exit_status_Inr main_all_succeed(1) [OF assms])
  have e: "last (printed (snd (main w))) = CHR 0x0A # ''Installation completed!''"
    by (simp add: main_all_succeed(2) [OF assms])
  show ?thesis
    using a check_lines_all_succeed [OF assms] package_count
      cross_lines_all_succeed [OF assms] e
    by blast
qed

theorem main_all_succeed_output_witness:
  "(\<forall>c. \<exists>out. all_succeed c = Exited 0 out)
   \<and> exit_status (main all_succeed) = Some 0
   \<and> length (filter (prefix check_mark) (printed (snd (main all_succeed)))) = 28
   \<and> filter (prefix cross_mark) (printed (snd (main all_succeed))) = []
   \<and> last (printed (snd (main all_succeed))) = CHR 0x0A # ''Installation completed!''"
proof -
  have h: "\<forall>c. \<exists>out. all_succeed c = Exited 0 out" by (simp add: all_succeed_def)
  note t = main_all_succeed_output [of all_succeed, OF h]
  from t have a: "exit_status (main all_succeed) = Some 0" by blast
  from t have f: "filter (prefix check_mark) (printed (snd (main all_succeed))) =
        [check_mark @ '' Node.js is installed'', check_mark @ '' Yarn is installed''] @
        map (\<lambda>e. check_mark @ '' '' @ snd e)
          (core_packages @ db_packages @ security_packages @ utility_packages @ dev_packages)"
    by blast
  from t have c: "length (core_packages @ db_packages @ security_packages @ utility_packages
          @ dev_packages) = 26" by blast
  have "length (filter (prefix check_mark) (printed (snd (main all_succeed)))) =
      2 + length (core_packages @ db_packages @ security_packages @ utility_packages
          @ dev_packages)"
    unfolding f by simp
  then have b: "length (filter (prefix check_mark) (printed (snd (main all_succeed)))) = 28"
    unfolding c by simp
  from t have d: "filter (prefix cross_mark) (printed (snd (main all_succeed))) = []"
    by blast
  from t have e: "last (printed (snd (main all_succeed))) = CHR 0x0A # ''Installation completed!''"
    by blast
  show ?thesis using h a b d e by blast
qed

text \<open>
  C5, as the claim states it, fails: when the child process cannot be started,
  \<^verbatim>\<open>subprocess.run\<close> raises \<^verbatim>\<open>OSError\<close>, which the \<^verbatim>\<open>except\<close> clause of
  \<^verbatim>\<open>run_command\<close> does not name, and the exception leaves the function.
\<close>

theorem run_command_raises_OSError:
  "fst (run_command shell_unavailable ''yarn add  express@^4.18.2'' ''Express installed'')
     = Inl OSError"
  by (simp add: run_command_def subprocess_run_def shell_unavailable_def)

text \<open>
  C5, amended. For every command and label, \<^verbatim>\<open>run_command\<close> returns true when the
  command exits with 0 and false when it exits with another code (a command the shell
  cannot find is such an exit); it catches \<^verbatim>\<open>CalledProcessError\<close> only, so when the
  child process cannot be started the \<^verbatim>\<open>OSError\<close> goes on to the caller.
\<close>

theorem run_command_result:
  "fst (run_command w command success_message) =
     (case w command of
        Exited rc out \<Rightarrow> Inr (rc = 0)
      | Launch_failed \<Rightarrow> Inl OSError)"
  by (simp add: run_command_def subprocess_run_def split: proc_outcome.split)

theorem run_command_result_witness:
  "fst (run_command all_succeed ''yarn add  express@^4.18.2'' ''Express installed'')
     = Inr True
   \<and> fst (run_command bcrypt_fails ''yarn add  bcrypt@^5.1.1'' ''Bcrypt installed'')
     = Inr False"
  using run_command_result [of all_succeed "''yarn add  express@^4.18.2''" "''Express installed''"]
    run_command_result [of bcrypt_fails "''yarn add  bcrypt@^5.1.1''" "''Bcrypt installed''"]
  by (simp add: all_succeed_def bcrypt_fails_def)

text \<open>
  C6, as the claim states it, fails for the same reason as C5: \<^verbatim>\<open>check_dependency\<close>
  catches \<^verbatim>\<open>CalledProcessError\<close> only, and an \<^verbatim>\<open>OSError\<close> of the launch leaves it.
\<close>

theorem check_dependency_raises_OSError:
  "fst (check_dependency shell_unavailable ''node --version'' ''Node.js'') = Inl OSError"
  by (simp add: check_dependency_def subprocess_run_def shell_unavailable_def)

text \<open>
  C6, amended. For every probe command and tool name, when the probe exits,
  \<^verbatim>\<open>check_dependency\<close> returns true if and only if the exit code is 0, and its only
  effects are starting the probe and printing one status line that names the tool; when
  the child process cannot be started, the \<^verbatim>\<open>OSError\<close> goes on to the caller. In
  every case nothing the probe wrote to its output streams reaches the terminal.
\<close>

theorem check_dependency_result:
  "check_dependency w command name =
     (case w command of
        Exited rc out \<Rightarrow>
          (Inr (rc = 0),
           [Spawn command,
            Print (if rc = 0 then check_mark @ '' '' @ name @ '' is installed''
                   else cross_mark @ '' '' @ name @ '' is not installed'')])
      | Launch_failed \<Rightarrow> (Inl OSError, [Spawn command]))
   \<and> Child_output s \<notin> set (snd (check_dependency w command name))"
  by (simp add: check_dependency_def subprocess_run_def split: proc_outcome.split)

theorem check_dependency_result_witness:
  "check_dependency node_missing ''node --version'' ''Node.js'' =
     (Inr False, [Spawn ''node --version'', Print (cross_mark @ '' Node.js is not installed'')])
   \<and> check_dependency node_missing ''yarn --version'' ''Yarn'' =
     (Inr True, [Spawn ''yarn --version'', Print (check_mark @ '' Yarn is installed'')])
   \<and> Child_output ''sh: 1: node: not found''
       \<notin> set (snd (check_dependency node_missing ''node --version'' ''Node.js''))"
  using check_dependency_result
      [of node_missing "''node --version''" "''Node.js''" "''sh: 1: node: not found''"]
    check_dependency_result [of node_missing "''yarn --version''" "''Yarn''" "[]"]
  by (simp add: node_missing_def)

text \<open>
  C7. The install command built for an entry contains \<^verbatim>\<open>--dev\<close> if and only if the
  entry is in the development group. The groups are the five calls of
  \<^verbatim>\<open>install_packages\<close> in \<^verbatim>\<open>main\<close>, and the commands built from them with the flag
  of each call are the install commands a run of \<^verbatim>\<open>main\<close> makes.
\<close>

theorem dev_flag_iff_development_group:
  assumes "w ''node --version'' = Exited 0 out1" and "w ''yarn --version'' = Exited 0 out2"
    and "\<forall>c. w c \<noteq> Launch_failed"
  shows "spawned (snd (main w)) =
           ''node --version'' # ''yarn --version'' #
           concat (map (\<lambda>(g, packages, is_dev). map (install_command is_dev \<circ> fst) packages)
                     install_calls)
    \<and> (\<forall>(g, packages, is_dev) \<in> set install_calls. \<forall>(package, message) \<in> set packages.
          sublist ''--dev'' (install_command is_dev package) \<longleftrightarrow> g = Development)"
proof -
  have s: "spawned (snd (main w)) =
           ''node --version'' # ''yarn --version'' #
           concat (map (\<lambda>(g, packages, is_dev). map (install_command is_dev \<circ> fst) packages)
                     install_calls)"
    by (simp add: main_all_exit(2) [of w out1 out2, OF assms] install_calls_def)
  show ?thesis using s dev_flag_in_install_calls by blast
qed

theorem dev_flag_iff_development_group_witness:
  "all_succeed ''node --version'' = Exited 0 []
   \<and> all_succeed ''yarn --version'' = Exited 0 []
   \<and> (\<forall>c. all_succeed c \<noteq> Launch_failed)
   \<and> (Development, dev_packages, True) \<in> set install_calls
   \<and> (''jest@^29.7.0'', ''Jest installed'') \<in> set dev_packages
   \<and> sublist ''--dev'' (install_command True ''jest@^29.7.0'')
   \<and> (Security, security_packages, False) \<in> set install_calls
   \<and> (''bcrypt@^5.1.1'', ''Bcrypt installed'') \<in> set security_packages
   \<and> \<not> sublist ''--dev'' (install_command False ''bcrypt@^5.1.1'')"
proof -
  have h1: "all_succeed ''node --version'' = Exited 0 []" by (simp add: all_succeed_def)
  have h2: "all_succeed ''yarn --version'' = Exited 0 []" by (simp add: all_succeed_def)
  have h3: "\<forall>c. all_succeed c \<noteq> Launch_failed" by (simp add: all_succeed_def)
  have d1: "(Development, dev_packages, True) \<in> set install_calls"
    by (simp add: install_calls_def)
  have d2: "(''jest@^29.7.0'', ''Jest installed'') \<in> set dev_packages"
    by (simp add: dev_packages_def)
  have s1: "(Security, security_packages, False) \<in> set install_calls"
    by (simp add: install_calls_def)
  have s2: "(''bcrypt@^5.1.1'', ''Bcrypt installed'') \<in> set security_packages"
    by (simp add: security_packages_def)
  from dev_flag_iff_development_group [of all_succeed "[]" "[]", OF h1 h2 h3]
  have t: "\<forall>(g, packages, is_dev) \<in> set install_calls. \<forall>(package, message) \<in> set packages.
          sublist ''--dev'' (install_command is_dev package) \<longleftrightarrow> g = Development" ..
  from t d1 d2 have a: "sublist ''--dev'' (install_command True ''jest@^29.7.0'')"
    by fastforce
  from t s1 s2 have b: "\<not> sublist ''--dev'' (install_command False ''bcrypt@^5.1.1'')"
    by fastforce
  show ?thesis using h1 h2 h3 d1 d2 s1 s2 a b by blast
qed



text \<open>
  C9. When the command given to \<^verbatim>\<open>run_command\<close> has exited, with code 0 or with
  another code, the effects of \<^verbatim>\<open>run_command\<close> are, in this order: starting the
  command, the output of the command, the status line, and a sleep of 2 seconds, which
  is the last effect before the function returns its result.
\<close>

theorem run_command_sleeps_before_return:
  assumes "w command = Exited rc out"
  shows "run_command w command success_message =
           (Inr (rc = 0),
            [Spawn command, Child_output out,
             Print (if rc = 0 then check_mark @ '' '' @ success_message
                    else cross_mark @ '' Failed to install: '' @ success_message),
             Sleep 2])"
  by (rule run_command_Exited [of w command rc out success_message, OF assms])

theorem run_command_sleeps_before_return_witness:
  "all_succeed ''yarn add  express@^4.18.2'' = Exited 0 []
   \<and> run_command all_succeed ''yarn add  express@^4.18.2'' ''Express installed'' =
       (Inr True,
        [Spawn ''yarn add  express@^4.18.2'', Child_output [],
         Print (check_mark @ '' Express installed''), Sleep 2])
   \<and> bcrypt_fails ''yarn add  bcrypt@^5.1.1'' = Exited 1 []
   \<and> run_command bcrypt_fails ''yarn add  bcrypt@^5.1.1'' ''Bcrypt installed'' =
       (Inr False,
        [Spawn ''yarn add  bcrypt@^5.1.1'', Child_output [],
         Print (cross_mark @ '' Failed to install: Bcrypt installed''), Sleep 2])"
proof -
  have h1: "all_succeed ''yarn add  express@^4.18.2'' = Exited 0 []"
    by (simp add: all_succeed_def)
  have h2: "bcrypt_fails ''yarn add  bcrypt@^5.1.1'' = Exited 1 []"
    by (simp add: bcrypt_fails_def)
  show ?thesis
    using h1 h2
      run_command_sleeps_before_return
        [of all_succeed "''yarn add  express@^4.18.2''" 0 "[]" "''Express installed''", OF h1]
      run_command_sleeps_before_return
        [of bcrypt_fails "''yarn add  bcrypt@^5.1.1''" 1 "[]" "''Bcrypt installed''", OF h2]
    by simp
qed

text \<open>
  C10. Without the development flag the command string is \<^verbatim>\<open>yarn add\<close>, two spaces,
  and the package specifier: the empty token of the f-string stands between the two
  spaces. With the flag it is \<^verbatim>\<open>yarn add --dev\<close>, one space, and the specifier. These
  are the strings \<^verbatim>\<open>install_packages\<close> hands to the shell.
\<close>

theorem install_command_spacing:
  "install_command False package = ''yarn add  '' @ package
   \<and> install_command True package = ''yarn add --dev '' @ package
   \<and> spawned (snd (install_packages w [(package, message)] is_dev)) =
       [if is_dev then ''yarn add --dev '' @ package else ''yarn add  '' @ package]"
  by (simp add: install_command_def seq_def run_command_def subprocess_run_def
        split: proc_outcome.split prod.split)

theorem install_command_spacing_witness:
  "install_command False ''express@^4.18.2'' = ''yarn add  express@^4.18.2''
   \<and> install_command True ''nodemon@^3.0.3'' = ''yarn add --dev nodemon@^3.0.3''
   \<and> spawned (snd (install_packages all_succeed
         [(''express@^4.18.2'', ''Express installed'')] False)) =
       [''yarn add  express@^4.18.2'']"
  using install_command_spacing
      [of "''express@^4.18.2''" all_succeed "''Express installed''" False]
    install_command_spacing
      [of "''nodemon@^3.0.3''" all_succeed "''Nodemon installed''" True]
  by (simp del: install_packages.simps)

end
